theory Spec2Isabelle
  imports Main "HOL-Library.Word" "HOL-Library.Multiset"
begin

section \<open>Shared data\<close>

text \<open>
  A \<open>Buffer\<close> is a list of bytes. Keys, hashes and addresses are buffers wrapped in a
  class (\<open>GrumpkinAddress\<close>, \<open>EthAddress\<close>, \<open>TxHash\<close>, \<open>AliasHash\<close>); the wrapper
  adds nothing the properties below depend on. A \<open>bigint\<close> is an unbounded signed
  integer, so it is an \<open>int\<close>.
\<close>

type_synonym bytes = "8 word list"
type_synonym GrumpkinAddress = bytes
type_synonym EthAddress = bytes
type_synonym TxHash = bytes
type_synonym AliasHash = bytes
type_synonym HashPath = "bytes list"

text \<open>A user id is a public key with a nonce (\<open>UserId\<close>, \<open>AccountId\<close>).\<close>

type_synonym UserId = "bytes \<times> nat"

text \<open>
  The errors of the two services. The source throws plain \<open>Error\<close> objects; the
  constructors carry the spec's names:
  \<^item> \<open>InsufficientFunds v\<close>: "Failed to find no more than 2 notes that sum to v."
  \<^item> \<open>SignerRequired\<close>: "Signer undefined."
  \<^item> \<open>DecodeError\<close>: the contract interface cannot parse a transaction's call data.
  \<^item> \<open>NumericOverflow\<close>: \<open>BigNumber.toNumber()\<close> on a value of more than 53 bits.
\<close>

datatype error = InsufficientFunds int | SignerRequired | DecodeError | NumericOverflow

subsection \<open>Hex strings\<close>

text \<open>
  \<open>Buffer.from(s, 'hex')\<close>: two hex digits per byte; decoding stops at the first pair
  that is not two hex digits, and a trailing single digit is dropped.
\<close>

definition hexDigit :: "char \<Rightarrow> nat option" where
  "hexDigit c =
     (let n = (of_char c :: nat) in
      if 48 \<le> n \<and> n \<le> 57 then Some (n - 48)
      else if 97 \<le> n \<and> n \<le> 102 then Some (n - 87)
      else if 65 \<le> n \<and> n \<le> 70 then Some (n - 55)
      else None)"

fun Buffer_from_hex :: "string \<Rightarrow> bytes" where
  "Buffer_from_hex (a # b # rest) =
     (case hexDigit a of
        None \<Rightarrow> []
      | Some x \<Rightarrow>
          (case hexDigit b of
             None \<Rightarrow> []
           | Some y \<Rightarrow> of_nat (16 * x + y) # Buffer_from_hex rest))"
| "Buffer_from_hex _ = []"

section \<open>The join-split proof creator (sdk/src/join\_split\_proof/index.ts)\<close>

text \<open>
  A stored note of the SDK (\<open>Note\<close> of \<open>sdk/src/note\<close>), as the note store keeps it and
  as \<open>UserState.pickNotes\<close> returns it.
\<close>

record Note =
  index :: nat
  owner :: UserId
  noteValue :: int
  viewingKey :: bytes
  nullifier :: bytes
  nullified :: bool

text \<open>
  A note of the proof system (\<open>Note\<close> of \<open>barretenberg/client_proofs/note\<close>, built by
  \<open>new Note(ownerPubKey, secret, value)\<close>).
\<close>

record ProofNote =
  ownerPubKey :: GrumpkinAddress
  secret :: bytes
  pnValue :: int

record UserData =
  id' :: UserId
  publicKey :: GrumpkinAddress
  privateKey :: "bytes option"
  syncedToRollup :: int

text \<open>
  \<open>UserState\<close> is an argument of \<open>createProof\<close>; the only member used is \<open>pickNotes\<close>,
  which returns the selected notes or nothing.
\<close>

record UserState =
  pickNotes :: "int \<Rightarrow> Note list option"

text \<open>The external signer (\<open>ethers.Signer\<close>): both results are hex strings.\<close>

record Signer =
  getAddress :: string
  signMessage :: "bytes \<Rightarrow> string"

text \<open>The transaction descriptor handed to the prover, in the constructor's argument order.\<close>

record JoinSplitTx =
  publicInput :: int
  publicOutput :: int
  numInputNotes :: nat
  inputNoteIndices :: "nat list"
  merkleRoot :: bytes
  inputNotePaths :: "HashPath list"
  inputNotes :: "ProofNote list"
  outputNotes :: "ProofNote list"
  signature :: bytes
  inputOwner :: EthAddress
  outputOwner :: EthAddress
  accountIndex :: nat
  accountPath :: HashPath
  signingPubKey :: GrumpkinAddress

text \<open>
  The collaborators of \<open>JoinSplitProofCreator\<close>: the prover, the world state, the note
  encryption (with the creator's \<open>grumpkin\<close>), the library functions, and the two
  sources of randomness. \<open>createNoteSecret env n\<close> is what the \<open>n\<close>-th call of
  \<open>createNoteSecret()\<close> in one run of \<open>createProof\<close> returns (counted from 0), and
  \<open>randomAddress env\<close> what \<open>GrumpkinAddress.randomAddress()\<close> returns there.
  \<open>getDepositSigningData env proofData viewingKeys\<close> stands for
  \<open>new JoinSplitProof(proofData, viewingKeys).getDepositSigningData()\<close>, and \<open>keccak256\<close>
  for \<open>ethers.utils.keccak256\<close> followed by \<open>arrayify\<close>.
\<close>

record Env =
  createJoinSplitProof :: "JoinSplitTx \<Rightarrow> bytes"
  sign4Notes :: "ProofNote list \<Rightarrow> bytes option \<Rightarrow> bytes"
  getHashPath :: "nat \<Rightarrow> HashPath"
  getRoot :: bytes
  encryptNote :: "ProofNote \<Rightarrow> bytes"
  createNoteSecret :: "nat \<Rightarrow> bytes"
  randomAddress :: GrumpkinAddress
  getDepositSigningData :: "bytes \<Rightarrow> bytes list \<Rightarrow> bytes"
  keccak256 :: "bytes \<Rightarrow> bytes"
  EthAddress_fromString :: "string \<Rightarrow> EthAddress"

record ProofOutput =
  proofData :: bytes
  viewingKeys :: "bytes list"
  depositSignature :: "bytes option"

text \<open>\<open>EthAddress.ZERO\<close>: twenty zero bytes.\<close>

definition EthAddress_ZERO :: EthAddress where
  "EthAddress_ZERO = replicate 20 0"

text \<open>\<open>const max = (a: bigint, b: bigint) => (a > b ? a : b)\<close>\<close>

definition max_bigint :: "int \<Rightarrow> int \<Rightarrow> int" where
  "max_bigint a b = (if a > b then a else b)"

text \<open>
  The padding loop \<open>for (let i = notes.length; i < 2; ++i)\<close>: it pushes \<open>i\<close> as the
  index and a zero-value note of the sender with a new secret. The last argument counts
  the calls of \<open>createNoteSecret()\<close> made so far.
\<close>

function padInputs ::
  "Env \<Rightarrow> UserData \<Rightarrow> nat \<Rightarrow> nat list \<Rightarrow> ProofNote list \<Rightarrow> nat \<Rightarrow> nat list \<times> ProofNote list \<times> nat"
where
  "padInputs env sender i idxs ns k =
     (if i < 2
      then padInputs env sender (Suc i) (idxs @ [i])
             (ns @ [\<lparr>ownerPubKey = publicKey sender, secret = createNoteSecret env k, pnValue = 0\<rparr>])
             (Suc k)
      else (idxs, ns, k))"
  by pat_completeness auto
termination
  by (relation "measure (\<lambda>(env, sender, i, idxs, ns, k). 2 - i)") auto

text \<open>
  \<open>ethSign\<close>: no signer is an error; otherwise the keccak digest of the public inputs is
  signed, the hex signature decoded, and a last byte of 0 or 1 replaced by 27 or 28.
  On an empty signature \<open>v\<close> is \<open>undefined\<close> and \<open>v <= 1\<close> is false.
\<close>

definition ethSign :: "Env \<Rightarrow> bytes \<Rightarrow> Signer option \<Rightarrow> error + bytes" where
  "ethSign env txPublicInputs signer =
     (case signer of
        None \<Rightarrow> Inl SignerRequired
      | Some sg \<Rightarrow>
          (let digest = keccak256 env txPublicInputs;
               sig = signMessage sg digest;
               signature = Buffer_from_hex (drop 2 sig)
           in if signature \<noteq> [] \<and> last signature \<le> 1
              then Inr (butlast signature @ [last signature + 27])
              else Inr signature))"

text \<open>
  \<open>createProof\<close>. The result is the list of descriptors the prover received together
  with the value returned or the error thrown. \<open>publicInput ? ... : undefined\<close> tests
  the bigint for being non-zero.
\<close>

definition createProof ::
  "Env \<Rightarrow> UserState \<Rightarrow> int \<Rightarrow> int \<Rightarrow> int \<Rightarrow> UserData \<Rightarrow> GrumpkinAddress option \<Rightarrow>
   EthAddress option \<Rightarrow> Signer option \<Rightarrow> JoinSplitTx list \<times> (error + ProofOutput)"
where
  "createProof env userState pubInput pubOutput newNoteValue sender receiverPubKey
      outputOwnerAddress signer =
     (let requiredInputNoteValue = max_bigint 0 (newNoteValue + pubOutput - pubInput) in
      case pickNotes userState requiredInputNoteValue of
        None \<Rightarrow> ([], Inl (InsufficientFunds requiredInputNoteValue))
      | Some notes \<Rightarrow>
          (let numNotes = length notes;
               totalNoteInputValue = foldl (\<lambda>sum note. sum + noteValue note) 0 notes;
               (noteIndices, inNotes, k) =
                 padInputs env sender (length notes) (map index notes)
                   (map (\<lambda>n. \<lparr>ownerPubKey = publicKey sender, secret = viewingKey n,
                                pnValue = noteValue n\<rparr>) notes) 0;
               notePaths = map (getHashPath env) noteIndices;
               changeValue = max_bigint 0 (totalNoteInputValue - newNoteValue - pubOutput);
               newNoteOwner = (case receiverPubKey of Some r \<Rightarrow> r | None \<Rightarrow> randomAddress env);
               outNotes =
                 [\<lparr>ownerPubKey = newNoteOwner, secret = createNoteSecret env k,
                    pnValue = newNoteValue\<rparr>,
                  \<lparr>ownerPubKey = publicKey sender, secret = createNoteSecret env (Suc k),
                    pnValue = changeValue\<rparr>];
               encViewingKey1 = encryptNote env (outNotes ! 0);
               encViewingKey2 = encryptNote env (outNotes ! 1);
               sig = sign4Notes env (inNotes @ outNotes) (privateKey sender);
               dataRoot = getRoot env;
               tx = \<lparr>publicInput = pubInput, publicOutput = pubOutput,
                      numInputNotes = numNotes, inputNoteIndices = noteIndices,
                      merkleRoot = dataRoot, inputNotePaths = notePaths,
                      inputNotes = inNotes, outputNotes = outNotes, signature = sig,
                      inputOwner = (case signer of
                                      Some sg \<Rightarrow> EthAddress_fromString env (getAddress sg)
                                    | None \<Rightarrow> EthAddress_ZERO),
                      outputOwner = (case outputOwnerAddress of Some a \<Rightarrow> a
                                     | None \<Rightarrow> EthAddress_ZERO),
                      accountIndex = 0, accountPath = getHashPath env 0,
                      signingPubKey = publicKey sender\<rparr>;
               prf = createJoinSplitProof env tx;
               vks = [encViewingKey1, encViewingKey2]
           in ([tx],
               if pubInput \<noteq> 0
               then (case ethSign env (getDepositSigningData env prf vks) signer of
                       Inl e \<Rightarrow> Inl e
                     | Inr s \<Rightarrow> Inr \<lparr>proofData = prf, viewingKeys = vks,
                                     depositSignature = Some s\<rparr>)
               else Inr \<lparr>proofData = prf, viewingKeys = vks, depositSignature = None\<rparr>)))"

section \<open>The chain decoder (blockchain/src/rollup\_processor.ts)\<close>

text \<open>
  What ethers returns: a transaction (\<open>TransactionResponse\<close>; \<open>data\<close> and \<open>hash\<close> are hex
  strings, \<open>timestamp\<close> is optional), its receipt, a block, a \<open>RollupProcessed\<close> event
  with the transaction \<open>getTransaction()\<close> yields, and a parsed \<open>DefiBridgeProcessed\<close> log.
  The transaction of an emitted event is mined, so its \<open>blockNumber\<close> is a number.
\<close>

record TransactionResponse =
  hash :: string
  blockNumber :: nat
  confirmations :: int
  txData :: string
  gasPrice :: nat
  timestamp :: "nat option"

record TransactionReceipt =
  gasUsed :: nat

record ChainBlock =
  blockTimestamp :: nat

record RollupProcessedEvent =
  eventRollupId :: nat
  eventBlockNumber :: nat
  getTransaction :: TransactionResponse

record DefiInteractionNote =
  bridgeId :: nat
  nonce :: nat
  totalInputValue :: nat
  totalOutputValueA :: nat
  totalOutputValueB :: nat
  result :: bool

record DefiBridgeLog =
  logBlockNumber :: nat
  logNote :: DefiInteractionNote

text \<open>
  The chain as the provider and the contract show it: the two event logs in chain order,
  and the lookups of receipts (by transaction hash) and blocks (by number).
\<close>

record Chain =
  rollupProcessedEvents :: "RollupProcessedEvent list"
  defiBridgeLogs :: "DefiBridgeLog list"
  getTransactionReceipt :: "string \<Rightarrow> TransactionReceipt"
  getBlock :: "nat \<Rightarrow> ChainBlock"

text \<open>
  The library functions \<open>decodeBlock\<close> calls: \<open>parseTransaction\<close> gives the \<open>proofData\<close>
  and \<open>viewingKeys\<close> arguments of the call as hex strings, or fails on call data the
  interface does not know.
\<close>

record Decoder =
  parseTransaction :: "string \<Rightarrow> (string \<times> string) option"
  getRollupIdFromBuffer :: "bytes \<Rightarrow> nat"
  getRollupSizeFromBuffer :: "bytes \<Rightarrow> nat"
  TxHash_fromString :: "string \<Rightarrow> TxHash"

text \<open>
  The decoded \<open>Block\<close>; its fields \<open>created\<close>, \<open>txHash\<close>, \<open>gasPrice\<close> and \<open>gasUsed\<close> carry
  the prefix \<open>block\<close> here. \<open>blockCreated\<close> is in milliseconds (no timestamp gives an
  invalid date, \<open>None\<close>); \<open>interactionResult\<close> is \<open>undefined\<close> (\<open>None\<close>) when the map
  has no entry for the block.
\<close>

record Block =
  blockCreated :: "nat option"
  blockTxHash :: TxHash
  rollupProofData :: bytes
  viewingKeysData :: bytes
  interactionResult :: "DefiInteractionNote list option"
  rollupId :: nat
  rollupSize :: nat
  blockGasPrice :: nat
  blockGasUsed :: nat

text \<open>\<open>BigNumber.toNumber()\<close> throws on a value that needs more than 53 bits.\<close>

definition toNumber :: "nat \<Rightarrow> error + nat" where
  "toNumber n = (if n < 2 ^ 53 then Inr n else Inl NumericOverflow)"

text \<open>\<open>queryFilter(filter, fromBlock)\<close> on each of the two logs.\<close>

definition queryRollupProcessed :: "Chain \<Rightarrow> nat option \<Rightarrow> nat \<Rightarrow> RollupProcessedEvent list" where
  "queryRollupProcessed chain rid fromBlock =
     filter (\<lambda>e. (case rid of None \<Rightarrow> True | Some r \<Rightarrow> eventRollupId e = r)
                  \<and> fromBlock \<le> eventBlockNumber e)
       (rollupProcessedEvents chain)"

definition queryDefiBridgeProcessed :: "Chain \<Rightarrow> nat \<Rightarrow> DefiBridgeLog list" where
  "queryDefiBridgeProcessed chain fromBlock =
     filter (\<lambda>l. fromBlock \<le> logBlockNumber l) (defiBridgeLogs chain)"

text \<open>\<open>getDefiBridgeEvents\<close>: the notes of each block, in log order.\<close>

definition getDefiBridgeEvents :: "Chain \<Rightarrow> nat \<Rightarrow> (nat \<rightharpoonup> DefiInteractionNote list)" where
  "getDefiBridgeEvents chain fromBlock =
     fold (\<lambda>l m. m(logBlockNumber l \<mapsto>
                     (case m (logBlockNumber l) of None \<Rightarrow> [] | Some ns \<Rightarrow> ns) @ [logNote l]))
       (queryDefiBridgeProcessed chain fromBlock) Map.empty"

definition decodeBlock ::
  "Decoder \<Rightarrow> TransactionResponse \<Rightarrow> TransactionReceipt \<Rightarrow> DefiInteractionNote list option \<Rightarrow>
   error + Block"
where
  "decodeBlock dec tx receipt interactions =
     (case parseTransaction dec (txData tx) of
        None \<Rightarrow> Inl DecodeError
      | Some (proofHex, viewingKeysHex) \<Rightarrow>
          (let proofBytes = Buffer_from_hex (drop 2 proofHex);
               viewingKeysBytes = Buffer_from_hex (drop 2 viewingKeysHex)
           in case toNumber (gasUsed receipt) of
                Inl e \<Rightarrow> Inl e
              | Inr used \<Rightarrow>
                  Inr \<lparr>blockCreated = map_option (\<lambda>t. t * 1000) (timestamp tx),
                       blockTxHash = TxHash_fromString dec (hash tx),
                       rollupProofData = proofBytes,
                       viewingKeysData = viewingKeysBytes,
                       interactionResult = interactions,
                       rollupId = getRollupIdFromBuffer dec proofBytes,
                       rollupSize = getRollupSizeFromBuffer dec proofBytes,
                       blockGasPrice = gasPrice tx,
                       blockGasUsed = used\<rparr>))"

text \<open>\<open>txs.map(...)\<close> stops at the first element whose callback throws.\<close>

fun mapThrowing :: "('a \<Rightarrow> error + 'b) \<Rightarrow> 'a list \<Rightarrow> error + 'b list" where
  "mapThrowing f [] = Inr []"
| "mapThrowing f (x # xs) =
     (case f x of
        Inl e \<Rightarrow> Inl e
      | Inr y \<Rightarrow> (case mapThrowing f xs of Inl e \<Rightarrow> Inl e | Inr ys \<Rightarrow> Inr (y # ys)))"

text \<open>
  \<open>getRollupBlocksFrom\<close>. Every transaction is decoded with \<open>receipts[0]\<close> and with
  \<open>blocks[i]\<close> for its own position \<open>i\<close>, as the source has it.
\<close>

definition getRollupBlocksFrom :: "Decoder \<Rightarrow> Chain \<Rightarrow> nat \<Rightarrow> int \<Rightarrow> error + Block list" where
  "getRollupBlocksFrom dec chain rid minConfirmations =
     (case queryRollupProcessed chain (Some rid) 0 of
        [] \<Rightarrow> Inr []
      | rollupEvent # _ \<Rightarrow>
          (let rollupEvents = queryRollupProcessed chain None (eventBlockNumber rollupEvent) in
           if rollupEvents = [] then Inr []
           else
             (let txs = filter (\<lambda>tx. minConfirmations \<le> confirmations tx)
                          (map getTransaction rollupEvents);
                  receipts = map (\<lambda>tx. getTransactionReceipt chain (hash tx)) txs;
                  blocks = map (\<lambda>tx. getBlock chain (blockNumber tx)) txs;
                  interactionResultMap = getDefiBridgeEvents chain (eventBlockNumber rollupEvent)
              in mapThrowing
                   (\<lambda>(tx, i). decodeBlock dec
                       (tx\<lparr>timestamp := Some (blockTimestamp (blocks ! i))\<rparr>)
                       (receipts ! 0)
                       (interactionResultMap (blockNumber tx)))
                   (zip txs [0..<length txs]))))"

section \<open>The database (sdk/src/database)\<close>

text \<open>
  The implementations of the \<open>Database\<close> interface are not among the sources; the
  sources hold the entity \<open>UserTxDao\<close> and the test suite every implementation has to
  pass (\<open>databaseTestSuite\<close>). The rows are the entities of the spec's data model.
  \<open>UserTxDao\<close> declares \<open>txHash\<close> and \<open>userId\<close> as primary columns with a unique
  index over the pair.
\<close>

record Alias =
  aliasHash :: AliasHash
  address :: GrumpkinAddress
  latestNonce :: nat

record SigningKey =
  accountId :: UserId
  key :: bytes
  treeIndex :: nat

record UserTx =
  txHash :: TxHash
  userId :: UserId
  action :: string
  assetId :: nat
  txValue :: int
  settled :: bool
  created :: int
  recipient :: "bytes option"

text \<open>One table per entity, and the key-value store of named blobs.\<close>

record Database =
  aliasTable :: "Alias list"
  noteTable :: "Note list"
  userTable :: "UserData list"
  keyTable :: "(string \<times> bytes) list"
  signingKeyTable :: "SigningKey list"
  userTxTable :: "UserTx list"

definition emptyDb :: Database where
  "emptyDb = \<lparr>aliasTable = [], noteTable = [], userTable = [], keyTable = [],
               signingKeyTable = [], userTxTable = []\<rparr>"

subsection \<open>Note store\<close>

text \<open>
  Modelled from the spec: \<open>getUserNotes\<close> of the note store, whose implementation is
  not among the sources. Spec 4.1: "\<open>getUserNotes(ownerId)\<close> \<rightarrow> sequence of
  non-nullified notes for that owner ordered by index ascending".
\<close>

definition getUserNotes :: "Database \<Rightarrow> UserId \<Rightarrow> Note list" where
  "getUserNotes db ownerId =
     sort_key index (filter (\<lambda>n. owner n = ownerId \<and> \<not> nullified n) (noteTable db))"

subsection \<open>Transaction history\<close>

text \<open>
  Modelled from the spec: \<open>addUserTx\<close>, whose implementation is not among the sources.
  Spec 3 and 7: (txHash, userId) is unique, and a duplicate pair on insert is "resolved
  by overwrite, not by raising an error".
\<close>

definition sameUserTx :: "UserTx \<Rightarrow> UserTx \<Rightarrow> bool" where
  "sameUserTx a b \<longleftrightarrow> txHash a = txHash b \<and> userId a = userId b"

definition addUserTx :: "UserTx \<Rightarrow> Database \<Rightarrow> Database" where
  "addUserTx tx db =
     db\<lparr>userTxTable :=
          (if list_ex (sameUserTx tx) (userTxTable db)
           then map (\<lambda>r. if sameUserTx tx r then tx else r) (userTxTable db)
           else userTxTable db @ [tx])\<rparr>"

text \<open>
  Modelled from the spec: \<open>getUserTx\<close>, whose implementation is not among the sources:
  the row with the given user id and transaction hash, if there is one.
\<close>

definition getUserTx :: "Database \<Rightarrow> UserId \<Rightarrow> TxHash \<Rightarrow> UserTx option" where
  "getUserTx db uid h = find (\<lambda>r. userId r = uid \<and> txHash r = h) (userTxTable db)"

text \<open>
  Modelled from the spec: \<open>settleUserTx\<close>, whose implementation is not among the
  sources. Spec 3: "settling must target exactly the row matching a given (userId,
  txHash) without affecting rows sharing only the hash".
\<close>

definition settleUserTx :: "UserId \<Rightarrow> TxHash \<Rightarrow> Database \<Rightarrow> Database" where
  "settleUserTx uid h db =
     db\<lparr>userTxTable :=
          map (\<lambda>r. if userId r = uid \<and> txHash r = h then r\<lparr>settled := True\<rparr> else r)
            (userTxTable db)\<rparr>"

subsection \<open>Reset\<close>

text \<open>
  Modelled from the spec: \<open>resetUsers\<close>, whose implementation is not among the sources.
  Spec 4.6: it "clears all aliases, all notes, all signing keys, all transaction history,
  and resets every user's \<open>syncedToRollup\<close> to -1, but preserves user identity records
  and the key-value blob store".
\<close>

definition resetUsers :: "Database \<Rightarrow> Database" where
  "resetUsers db =
     db\<lparr>aliasTable := [], noteTable := [], signingKeyTable := [], userTxTable := [],
        userTable := map (\<lambda>u. u\<lparr>syncedToRollup := -1\<rparr>) (userTable db)\<rparr>"

subsection \<open>Alias directory\<close>

text \<open>
  Modelled from the spec: \<open>addAlias\<close>, whose implementation is not among the sources.
  Spec 3: for a fixed (aliasHash, address) pair the entry is replaced in place; "a
  different aliasHash or address starts a new generation".
\<close>

definition sameAlias :: "Alias \<Rightarrow> Alias \<Rightarrow> bool" where
  "sameAlias a b \<longleftrightarrow> aliasHash a = aliasHash b \<and> address a = address b"

definition addAlias :: "Alias \<Rightarrow> Database \<Rightarrow> Database" where
  "addAlias a db =
     db\<lparr>aliasTable :=
          (if list_ex (sameAlias a) (aliasTable db)
           then map (\<lambda>r. if sameAlias a r then a else r) (aliasTable db)
           else aliasTable db @ [a])\<rparr>"

text \<open>
  The entry of a list with the least, and with the greatest, value of \<open>f\<close>: the first
  entry of the list sorted by \<open>f\<close>, ascending or descending.
\<close>

definition leastBy :: "('a \<Rightarrow> nat) \<Rightarrow> 'a list \<Rightarrow> 'a option" where
  "leastBy f xs = (case sort_key f xs of [] \<Rightarrow> None | x # _ \<Rightarrow> Some x)"

definition greatestBy :: "('a \<Rightarrow> nat) \<Rightarrow> 'a list \<Rightarrow> 'a option" where
  "greatestBy f xs = (case rev (sort_key f xs) of [] \<Rightarrow> None | x # _ \<Rightarrow> Some x)"



text \<open>
  Modelled from the spec: \<open>getAliasHashByAddress\<close> and \<open>getAddressByAliasHash\<close>, whose
  implementations are not among the sources, with the nonce argument as the test suite
  fixes it (test\_suite.ts, lines 355 to 389): with generations of nonce 10, 8 and 6,
  the nonces 0, 5 and 6 give the generation of nonce 6, the nonces 7 and 8 the generation
  of nonce 8, and no nonce the generation of nonce 10. So a given nonce selects, among
  the entries with \<open>latestNonce >= nonce\<close>, the one with the least \<open>latestNonce\<close>; no
  nonce selects the entry with the greatest \<open>latestNonce\<close>.
\<close>

definition getAliasHashByAddress ::
  "Database \<Rightarrow> GrumpkinAddress \<Rightarrow> nat option \<Rightarrow> AliasHash option"
where
  "getAliasHashByAddress db addr n =
     map_option aliasHash
       (case n of
          None \<Rightarrow> greatestBy latestNonce (filter (\<lambda>a. address a = addr) (aliasTable db))
        | Some m \<Rightarrow>
            leastBy latestNonce
              (filter (\<lambda>a. address a = addr \<and> m \<le> latestNonce a) (aliasTable db)))"

definition getAddressByAliasHash ::
  "Database \<Rightarrow> AliasHash \<Rightarrow> nat option \<Rightarrow> GrumpkinAddress option"
where
  "getAddressByAliasHash db h n =
     map_option address
       (case n of
          None \<Rightarrow> greatestBy latestNonce (filter (\<lambda>a. aliasHash a = h) (aliasTable db))
        | Some m \<Rightarrow>
            leastBy latestNonce
              (filter (\<lambda>a. aliasHash a = h \<and> m \<le> latestNonce a) (aliasTable db)))"



subsection \<open>The test suite's alias queries (sdk/src/database/test/test\_suite.ts)\<close>

text \<open>
  The two tests of lines 355 to 389, for any implementation of \<open>addAlias\<close> and of the
  query on any type of database. \<open>db0\<close> is the database \<open>createDb()\<close> returns, \<open>alias\<close>
  the random alias, and \<open>r0\<close>, \<open>r1\<close>, \<open>r2\<close> the three random alias hashes (or
  addresses) of the loop. Each test holds when all its expectations hold.
\<close>

definition test_getAliasHashByAddress ::
  "(Alias \<Rightarrow> 'db \<Rightarrow> 'db) \<Rightarrow> ('db \<Rightarrow> GrumpkinAddress \<Rightarrow> nat option \<Rightarrow> AliasHash option) \<Rightarrow>
   'db \<Rightarrow> Alias \<Rightarrow> AliasHash \<Rightarrow> AliasHash \<Rightarrow> AliasHash \<Rightarrow> bool"
where
  "test_getAliasHashByAddress add query db0 alias r0 r1 r2 =
     (let db = add (alias\<lparr>latestNonce := 10 - 2 * 2, aliasHash := r2\<rparr>)
                (add (alias\<lparr>latestNonce := 10 - 1 * 2, aliasHash := r1\<rparr>)
                  (add (alias\<lparr>latestNonce := 10 - 0 * 2, aliasHash := r0\<rparr>) db0))
      in query db (address alias) None = Some r0
         \<and> query db (address alias) (Some 0) = Some r2
         \<and> query db (address alias) (Some 5) = Some r2
         \<and> query db (address alias) (Some 6) = Some r2
         \<and> query db (address alias) (Some 7) = Some r1
         \<and> query db (address alias) (Some 8) = Some r1)"

definition test_getAddressByAliasHash ::
  "(Alias \<Rightarrow> 'db \<Rightarrow> 'db) \<Rightarrow> ('db \<Rightarrow> AliasHash \<Rightarrow> nat option \<Rightarrow> GrumpkinAddress option) \<Rightarrow>
   'db \<Rightarrow> Alias \<Rightarrow> GrumpkinAddress \<Rightarrow> GrumpkinAddress \<Rightarrow> GrumpkinAddress \<Rightarrow> bool"
where
  "test_getAddressByAliasHash add query db0 alias r0 r1 r2 =
     (let db = add (alias\<lparr>latestNonce := 10 - 2 * 2, address := r2\<rparr>)
                (add (alias\<lparr>latestNonce := 10 - 1 * 2, address := r1\<rparr>)
                  (add (alias\<lparr>latestNonce := 10 - 0 * 2, address := r0\<rparr>) db0))
      in query db (aliasHash alias) None = Some r0
         \<and> query db (aliasHash alias) (Some 0) = Some r2
         \<and> query db (aliasHash alias) (Some 5) = Some r2
         \<and> query db (aliasHash alias) (Some 6) = Some r2
         \<and> query db (aliasHash alias) (Some 7) = Some r1
         \<and> query db (aliasHash alias) (Some 8) = Some r1)"

section \<open>Example data\<close>

text \<open>
  Concrete collaborators and users for the examples: a user holding one note of value
  100, a user holding notes of 40 and 70, and a signer whose signature ends in the
  recovery byte 1.
\<close>

definition exampleEnv :: Env where
  "exampleEnv =
     \<lparr>createJoinSplitProof = (\<lambda>tx. [of_nat (length (inputNotes tx)), of_nat (length (outputNotes tx))]),
      sign4Notes = (\<lambda>ns key. [of_nat (length ns)]),
      getHashPath = (\<lambda>i. [[of_nat i]]),
      getRoot = [7],
      encryptNote = (\<lambda>n. secret n),
      createNoteSecret = (\<lambda>n. [of_nat n + 100]),
      randomAddress = [9, 9],
      getDepositSigningData = (\<lambda>p vks. p),
      keccak256 = (\<lambda>b. rev b),
      EthAddress_fromString = (\<lambda>s. Buffer_from_hex (drop 2 s))\<rparr>"

definition exampleSender :: UserData where
  "exampleSender = \<lparr>id' = ([1], 0), publicKey = [1], privateKey = Some [2], syncedToRollup = -1\<rparr>"

definition exNote :: "nat \<Rightarrow> int \<Rightarrow> Note" where
  "exNote i v = \<lparr>index = i, owner = ([1], 0), noteValue = v, viewingKey = [of_nat i],
                 nullifier = [of_nat i, 0], nullified = False\<rparr>"

definition oneNoteUser :: UserState where
  "oneNoteUser = \<lparr>pickNotes = (\<lambda>v. if v \<le> 100 then Some [exNote 5 100] else None)\<rparr>"

definition twoNoteUser :: UserState where
  "twoNoteUser =
     \<lparr>pickNotes = (\<lambda>v. if v \<le> 40 then Some [exNote 3 40]
                        else if v \<le> 70 then Some [exNote 4 70]
                        else if v \<le> 110 then Some [exNote 3 40, exNote 4 70]
                        else None)\<rparr>"

definition exampleSigner :: Signer where
  "exampleSigner = \<lparr>getAddress = ''0x0a0b'', signMessage = (\<lambda>digest. ''0xab01'')\<rparr>"

text \<open>
  Chains for the examples: one with rollup 5 processed in block 1000 by a transaction with
  \<open>c\<close> confirmations, one with rollups 5 and 6 in blocks 1000 and 1001 whose
  transactions used 100 and 200 gas.
\<close>

definition exampleDecoder :: Decoder where
  "exampleDecoder =
     \<lparr>parseTransaction = (\<lambda>d. if d = ''0x'' then None else Some (d, ''0xbeef'')),
      getRollupIdFromBuffer = (\<lambda>b. case b of [] \<Rightarrow> 0 | x # _ \<Rightarrow> unat x),
      getRollupSizeFromBuffer = (\<lambda>b. length b),
      TxHash_fromString = (\<lambda>s. Buffer_from_hex (drop 2 s))\<rparr>"

definition exampleTx :: "string \<Rightarrow> nat \<Rightarrow> int \<Rightarrow> string \<Rightarrow> TransactionResponse" where
  "exampleTx h b c d =
     \<lparr>hash = h, blockNumber = b, confirmations = c, txData = d, gasPrice = 3, timestamp = None\<rparr>"

definition oneRollupChain :: "int \<Rightarrow> Chain" where
  "oneRollupChain c =
     \<lparr>rollupProcessedEvents =
        [\<lparr>eventRollupId = 5, eventBlockNumber = 1000,
          getTransaction = exampleTx ''0xaa'' 1000 c ''0x05''\<rparr>],
      defiBridgeLogs = [],
      getTransactionReceipt = (\<lambda>h. \<lparr>gasUsed = 100\<rparr>),
      getBlock = (\<lambda>n. \<lparr>blockTimestamp = n * 10\<rparr>)\<rparr>"

definition exampleInteraction :: DefiInteractionNote where
  "exampleInteraction =
     \<lparr>bridgeId = 1, nonce = 0, totalInputValue = 10, totalOutputValueA = 9,
      totalOutputValueB = 0, result = True\<rparr>"

definition twoRollupChain :: Chain where
  "twoRollupChain =
     \<lparr>rollupProcessedEvents =
        [\<lparr>eventRollupId = 5, eventBlockNumber = 1000,
          getTransaction = exampleTx ''0xaa'' 1000 3 ''0x05''\<rparr>,
         \<lparr>eventRollupId = 6, eventBlockNumber = 1001,
          getTransaction = exampleTx ''0xbb'' 1001 2 ''0x06''\<rparr>],
      defiBridgeLogs = [\<lparr>logBlockNumber = 1001, logNote = exampleInteraction\<rparr>],
      getTransactionReceipt = (\<lambda>h. if h = ''0xaa'' then \<lparr>gasUsed = 100\<rparr> else \<lparr>gasUsed = 200\<rparr>),
      getBlock = (\<lambda>n. \<lparr>blockTimestamp = n * 10\<rparr>)\<rparr>"

text \<open>
  Databases for the examples: a note table with three notes of one user (one of them
  nullified) and one note of another user; a database with a row in every table, where
  two users hold a row for the same transaction hash; and the alias generations of
  nonce 10, 8 and 6 that the test suite stores for one address.
\<close>

definition exNotes :: Database where
  "exNotes = emptyDb\<lparr>noteTable :=
     [\<lparr>index = 9, owner = ([1], 0), noteValue = 5, viewingKey = [9], nullifier = [9, 9], nullified = False\<rparr>,
      \<lparr>index = 4, owner = ([1], 0), noteValue = 6, viewingKey = [4], nullifier = [4, 4], nullified = True\<rparr>,
      \<lparr>index = 2, owner = ([1], 0), noteValue = 7, viewingKey = [2], nullifier = [2, 2], nullified = False\<rparr>,
      \<lparr>index = 3, owner = ([2], 0), noteValue = 8, viewingKey = [3], nullifier = [3, 3], nullified = False\<rparr>]\<rparr>"

definition exUserTx :: "TxHash \<Rightarrow> UserId \<Rightarrow> int \<Rightarrow> UserTx" where
  "exUserTx h u v =
     \<lparr>txHash = h, userId = u, action = ''DEPOSIT'', assetId = 0, txValue = v, settled = False,
      created = 1000, recipient = None\<rparr>"

definition exFullDb :: Database where
  "exFullDb =
     \<lparr>aliasTable = [\<lparr>aliasHash = [10], address = [50], latestNonce = 1\<rparr>],
      noteTable = noteTable exNotes,
      userTable = [\<lparr>id' = ([1], 0), publicKey = [1], privateKey = Some [2], syncedToRollup = 7\<rparr>],
      keyTable = [(''secretKey'', [1, 2, 3])],
      signingKeyTable = [\<lparr>accountId = ([1], 0), key = [5], treeIndex = 3\<rparr>],
      userTxTable = [exUserTx [20] ([1], 0) 10, exUserTx [20] ([2], 0) 10]\<rparr>"


section \<open>Properties of the proof creator\<close>

declare padInputs.simps [simp del]

lemma padInputs_done: "2 \<le> i \<Longrightarrow> padInputs env sender i idxs ns k = (idxs, ns, k)"
  by (subst padInputs.simps) simp

lemma padInputs_one:
  "padInputs env sender (Suc 0) idxs ns k =
     (idxs @ [1], ns @ [\<lparr>ownerPubKey = publicKey sender, secret = createNoteSecret env k, pnValue = 0\<rparr>], Suc k)"
  by (subst padInputs.simps) (simp add: padInputs_done)



lemma max_bigint_max: "max_bigint a b = max a b"
  by (simp add: max_bigint_def max_def)



text \<open>
  Claim C2. The selector is asked for \<open>max(0, newNoteValue + publicOutput - publicInput)\<close>.
  \<open>createProof\<close> fails with the insufficient-funds error exactly when the selector
  returns nothing for that value, and then the prover has received no descriptor.
\<close>

theorem createProof_insufficient_funds:
  "((\<exists>v. snd (createProof env userState pubInput pubOutput newNoteValue sender receiverPubKey
              outputOwnerAddress signer) = Inl (InsufficientFunds v))
      \<longleftrightarrow> pickNotes userState (max 0 (newNoteValue + pubOutput - pubInput)) = None)
   \<and> (pickNotes userState (max 0 (newNoteValue + pubOutput - pubInput)) = None \<longrightarrow>
        createProof env userState pubInput pubOutput newNoteValue sender receiverPubKey
          outputOwnerAddress signer
        = ([], Inl (InsufficientFunds (max 0 (newNoteValue + pubOutput - pubInput)))))"
  by (auto simp: createProof_def max_bigint_max Let_def ethSign_def
      split: option.splits prod.splits sum.splits if_splits)

theorem createProof_insufficient_funds_witness:
  "pickNotes twoNoteUser (max 0 (200 + 0 - 0)) = None \<and>
   createProof exampleEnv twoNoteUser 0 0 200 exampleSender (Some [8]) None None
     = ([], Inl (InsufficientFunds 200)) \<and>
   pickNotes twoNoteUser (max 0 (100 + 0 - 0)) = Some [exNote 3 40, exNote 4 70] \<and>
   (\<forall>v. snd (createProof exampleEnv twoNoteUser 0 0 100 exampleSender (Some [8]) None None)
        \<noteq> Inl (InsufficientFunds v))"
proof -
  have none: "pickNotes twoNoteUser (max 0 (200 + 0 - 0)) = None"
    by (simp add: twoNoteUser_def)
  have some: "pickNotes twoNoteUser (max 0 (100 + 0 - 0)) = Some [exNote 3 40, exNote 4 70]"
    by (simp add: twoNoteUser_def)
  show ?thesis
    using none some
      createProof_insufficient_funds [of exampleEnv twoNoteUser 0 0 200 exampleSender "Some [8]" None None]
      createProof_insufficient_funds [of exampleEnv twoNoteUser 0 0 100 exampleSender "Some [8]" None None]
    by simp
qed

lemma ethSign_Some:
  "ethSign env d (Some sg) =
     (let raw = Buffer_from_hex (drop 2 (signMessage sg (keccak256 env d)))
      in Inr (if raw \<noteq> [] \<and> last raw \<le> 1 then butlast raw @ [last raw + 27] else raw))"
  by (simp add: ethSign_def Let_def)

lemma byte_le_one: "(v::8 word) \<le> 1 \<longleftrightarrow> v = 0 \<or> v = 1"
proof -
  have "v \<le> 1 \<longleftrightarrow> unat v \<le> 1"
    by (simp add: word_le_nat_alt)
  also have "\<dots> \<longleftrightarrow> unat v = 0 \<or> unat v = 1"
    by linarith
  also have "\<dots> \<longleftrightarrow> v = 0 \<or> v = 1"
    by (simp add: word_unat_eq_iff)
  finally show ?thesis .
qed

text \<open>
  Claim C5, as the code has it. Let the selector succeed. With \<open>publicInput = 0\<close> the
  result carries no deposit signature, with or without a signer. With a non-zero
  \<open>publicInput\<close> and no signer the call fails with the signer error. With a non-zero
  \<open>publicInput\<close> and a signer, the result carries the signer's signature of the keccak
  digest of the deposit signing data, where a last byte 0 becomes 27, a last byte 1
  becomes 28, and any other signature (empty, or with a last byte above 1) is unchanged.
\<close>

theorem createProof_deposit_signature:
  assumes sel: "pickNotes userState (max 0 (newNoteValue + pubOutput - pubInput)) = Some picked"
  shows
    "(pubInput = 0 \<longrightarrow>
        (\<exists>r. snd (createProof env userState pubInput pubOutput newNoteValue sender receiverPubKey
                   outputOwnerAddress signer) = Inr r \<and> depositSignature r = None))
     \<and> (pubInput \<noteq> 0 \<and> signer = None \<longrightarrow>
          snd (createProof env userState pubInput pubOutput newNoteValue sender receiverPubKey
                 outputOwnerAddress signer) = Inl SignerRequired)
     \<and> (\<forall>sg. pubInput \<noteq> 0 \<and> signer = Some sg \<longrightarrow>
          (\<exists>r raw sig.
             snd (createProof env userState pubInput pubOutput newNoteValue sender receiverPubKey
                    outputOwnerAddress signer) = Inr r
             \<and> depositSignature r = Some sig
             \<and> raw = Buffer_from_hex (drop 2 (signMessage sg
                       (keccak256 env (getDepositSigningData env (proofData r) (viewingKeys r)))))
             \<and> (raw \<noteq> [] \<and> last raw = 0 \<longrightarrow> sig = butlast raw @ [27])
             \<and> (raw \<noteq> [] \<and> last raw = 1 \<longrightarrow> sig = butlast raw @ [28])
             \<and> (raw = [] \<or> 1 < last raw \<longrightarrow> sig = raw)))"
proof (intro conjI allI impI)
  assume "pubInput = 0"
  then show "\<exists>r. snd (createProof env userState pubInput pubOutput newNoteValue sender receiverPubKey
                   outputOwnerAddress signer) = Inr r \<and> depositSignature r = None"
    using sel by (simp add: createProof_def max_bigint_max Let_def split: prod.splits)
next
  assume "pubInput \<noteq> 0 \<and> signer = None"
  then show "snd (createProof env userState pubInput pubOutput newNoteValue sender receiverPubKey
                 outputOwnerAddress signer) = Inl SignerRequired"
    using sel by (simp add: createProof_def max_bigint_max Let_def ethSign_def split: prod.splits)
next
  fix sg
  assume a: "pubInput \<noteq> 0 \<and> signer = Some sg"
  then show "\<exists>r raw sig.
             snd (createProof env userState pubInput pubOutput newNoteValue sender receiverPubKey
                    outputOwnerAddress signer) = Inr r
             \<and> depositSignature r = Some sig
             \<and> raw = Buffer_from_hex (drop 2 (signMessage sg
                       (keccak256 env (getDepositSigningData env (proofData r) (viewingKeys r)))))
             \<and> (raw \<noteq> [] \<and> last raw = 0 \<longrightarrow> sig = butlast raw @ [27])
             \<and> (raw \<noteq> [] \<and> last raw = 1 \<longrightarrow> sig = butlast raw @ [28])
             \<and> (raw = [] \<or> 1 < last raw \<longrightarrow> sig = raw)"
    using sel
    by (auto simp: createProof_def max_bigint_max Let_def ethSign_Some byte_le_one
        split: prod.splits)
qed

text \<open>
  The signature is produced for every non-zero \<open>publicInput\<close>, not only for a positive
  one: with \<open>publicInput = -1\<close> the result carries a deposit signature.
\<close>

theorem createProof_deposit_signature_counterexample:
  "snd (createProof exampleEnv oneNoteUser (-1) 0 0 exampleSender None None (Some exampleSigner))
     = Inr \<lparr>proofData = [2, 2], viewingKeys = [[101], [102]], depositSignature = Some [171, 28]\<rparr>
   \<and> \<not> ((-1::int) > 0)"
  by (simp add: createProof_def oneNoteUser_def exampleEnv_def exampleSender_def exNote_def
      exampleSigner_def max_bigint_def padInputs_one ethSign_def hexDigit_def Let_def)

theorem createProof_deposit_signature_witness:
  "pickNotes oneNoteUser (max 0 (30 + 0 - 10)) = Some [exNote 5 100]
   \<and> snd (createProof exampleEnv oneNoteUser 10 0 30 exampleSender None None None) = Inl SignerRequired
   \<and> (\<exists>r. snd (createProof exampleEnv oneNoteUser 10 0 30 exampleSender None None (Some exampleSigner)) = Inr r
         \<and> depositSignature r = Some [171, 28])
   \<and> (\<exists>r. snd (createProof exampleEnv oneNoteUser 0 0 30 exampleSender None None None) = Inr r
         \<and> depositSignature r = None)"
proof -
  have sel: "pickNotes oneNoteUser (max 0 (30 + 0 - 10)) = Some [exNote 5 100]"
    by (simp add: oneNoteUser_def)
  have sel0: "pickNotes oneNoteUser (max 0 (30 + 0 - 0)) = Some [exNote 5 100]"
    by (simp add: oneNoteUser_def)
  have raw: "Buffer_from_hex (drop 2 (signMessage exampleSigner d)) = [171, 1]" for d
    by (simp add: exampleSigner_def hexDigit_def)
  show ?thesis
    using sel
      createProof_deposit_signature [OF sel, of exampleEnv exampleSender None None None]
      createProof_deposit_signature [OF sel, of exampleEnv exampleSender None None "Some exampleSigner"]
      createProof_deposit_signature [OF sel0, of exampleEnv exampleSender None None None]
    by (auto simp: raw)
qed

section \<open>Properties of the chain decoder\<close>

lemma mapThrowing_Inr:
  "mapThrowing f xs = Inr ys \<Longrightarrow> length ys = length xs \<and> (\<forall>i<length xs. f (xs ! i) = Inr (ys ! i))"
proof (induction xs arbitrary: ys)
  case Nil
  then show ?case by simp
next
  case (Cons x xs)
  then show ?case
    by (auto split: sum.splits simp: nth_Cons split: nat.splits)
qed

lemma decodeBlock_Inr:
  "decodeBlock dec tx receipt interactions = Inr b \<Longrightarrow>
     blockTxHash b = TxHash_fromString dec (hash tx) \<and> blockGasPrice b = gasPrice tx
     \<and> blockGasUsed b = gasUsed receipt \<and> interactionResult b = interactions"
  by (auto simp: decodeBlock_def toNumber_def Let_def split: option.splits sum.splits if_splits)

lemma mapThrowing_decode_txHash:
  assumes "mapThrowing (\<lambda>(tx, i). decodeBlock dec (tx\<lparr>timestamp := g i\<rparr>) (r i) (m tx)) (zip txs [0..<length txs]) = Inr blocks"
  shows "map blockTxHash blocks = map (\<lambda>tx. TxHash_fromString dec (hash tx)) txs"
proof (rule nth_equalityI)
  from mapThrowing_Inr [OF assms]
  have len: "length blocks = length txs"
    and each: "\<forall>i<length txs. decodeBlock dec ((txs ! i)\<lparr>timestamp := g i\<rparr>) (r i) (m (txs ! i)) = Inr (blocks ! i)"
    by auto
  show "length (map blockTxHash blocks) = length (map (\<lambda>tx. TxHash_fromString dec (hash tx)) txs)"
    using len by simp
  fix i assume "i < length (map blockTxHash blocks)"
  then have i: "i < length txs" using len by simp
  with each have "decodeBlock dec ((txs ! i)\<lparr>timestamp := g i\<rparr>) (r i) (m (txs ! i)) = Inr (blocks ! i)"
    by blast
  from decodeBlock_Inr [OF this] show "map blockTxHash blocks ! i = map (\<lambda>tx. TxHash_fromString dec (hash tx)) txs ! i"
    using i len by simp
qed

text \<open>
  Claim C4. \<open>getRollupBlocksFrom\<close> returns the empty list, not an error, when no
  \<open>RollupProcessed\<close> event carries the rollup id, and also when every transaction has
  fewer than \<open>minConfirmations\<close> confirmations. Whenever it returns blocks, these are,
  in order, the blocks of the transactions with at least \<open>minConfirmations\<close>
  confirmations among the events from the rollup's block on.
\<close>

theorem getRollupBlocksFrom_confirmations:
  "((\<forall>e \<in> set (rollupProcessedEvents chain). eventRollupId e \<noteq> rid) \<longrightarrow>
      getRollupBlocksFrom dec chain rid minConfirmations = Inr [])
   \<and> ((\<forall>e \<in> set (rollupProcessedEvents chain). confirmations (getTransaction e) < minConfirmations) \<longrightarrow>
      getRollupBlocksFrom dec chain rid minConfirmations = Inr [])
   \<and> (\<forall>first rest blocks.
        filter (\<lambda>e. eventRollupId e = rid) (rollupProcessedEvents chain) = first # rest
        \<and> getRollupBlocksFrom dec chain rid minConfirmations = Inr blocks \<longrightarrow>
        map blockTxHash blocks =
          map (\<lambda>tx. TxHash_fromString dec (hash tx))
            (filter (\<lambda>tx. minConfirmations \<le> confirmations tx)
               (map getTransaction
                  (filter (\<lambda>e. eventBlockNumber first \<le> eventBlockNumber e)
                     (rollupProcessedEvents chain)))))"
proof (intro conjI allI impI)
  assume "\<forall>e \<in> set (rollupProcessedEvents chain). eventRollupId e \<noteq> rid"
  then have "queryRollupProcessed chain (Some rid) 0 = []"
    by (simp add: queryRollupProcessed_def filter_empty_conv)
  then show "getRollupBlocksFrom dec chain rid minConfirmations = Inr []"
    by (simp add: getRollupBlocksFrom_def)
next
  assume "\<forall>e \<in> set (rollupProcessedEvents chain). confirmations (getTransaction e) < minConfirmations"
  then have "filter (\<lambda>tx. minConfirmations \<le> confirmations tx)
               (map getTransaction (queryRollupProcessed chain None b)) = []" for b
    by (auto simp: queryRollupProcessed_def filter_empty_conv)
  then show "getRollupBlocksFrom dec chain rid minConfirmations = Inr []"
    by (simp add: getRollupBlocksFrom_def Let_def split: list.splits)
next
  fix first rest blocks
  assume a: "filter (\<lambda>e. eventRollupId e = rid) (rollupProcessedEvents chain) = first # rest
        \<and> getRollupBlocksFrom dec chain rid minConfirmations = Inr blocks"
  then have q: "queryRollupProcessed chain (Some rid) 0 = first # rest"
    by (simp add: queryRollupProcessed_def)
  have q2: "queryRollupProcessed chain None b = filter (\<lambda>e. b \<le> eventBlockNumber e) (rollupProcessedEvents chain)" for b
    by (simp add: queryRollupProcessed_def)
  show "map blockTxHash blocks =
          map (\<lambda>tx. TxHash_fromString dec (hash tx))
            (filter (\<lambda>tx. minConfirmations \<le> confirmations tx)
               (map getTransaction
                  (filter (\<lambda>e. eventBlockNumber first \<le> eventBlockNumber e)
                     (rollupProcessedEvents chain))))"
  proof (cases "queryRollupProcessed chain None (eventBlockNumber first) = []")
    case True
    then show ?thesis
      using a q by (simp add: getRollupBlocksFrom_def q2)
  next
    case False
    define txs where "txs = filter (\<lambda>tx. minConfirmations \<le> confirmations tx)
        (map getTransaction (queryRollupProcessed chain None (eventBlockNumber first)))"
    have "getRollupBlocksFrom dec chain rid minConfirmations =
        mapThrowing
          (\<lambda>(tx, i). decodeBlock dec
             (tx\<lparr>timestamp := Some (blockTimestamp (map (\<lambda>tx. getBlock chain (blockNumber tx)) txs ! i))\<rparr>)
             (map (\<lambda>tx. getTransactionReceipt chain (hash tx)) txs ! 0)
             (getDefiBridgeEvents chain (eventBlockNumber first) (blockNumber tx)))
          (zip txs [0..<length txs])"
      unfolding getRollupBlocksFrom_def q txs_def Let_def list.case
      using False by (simp only: if_False)
    with a have "mapThrowing
          (\<lambda>(tx, i). decodeBlock dec
             (tx\<lparr>timestamp := Some (blockTimestamp (map (\<lambda>tx. getBlock chain (blockNumber tx)) txs ! i))\<rparr>)
             (map (\<lambda>tx. getTransactionReceipt chain (hash tx)) txs ! 0)
             (getDefiBridgeEvents chain (eventBlockNumber first) (blockNumber tx)))
          (zip txs [0..<length txs]) = Inr blocks"
      by simp
    then have "map blockTxHash blocks = map (\<lambda>tx. TxHash_fromString dec (hash tx)) txs"
      by (rule mapThrowing_decode_txHash)
    then show ?thesis
      by (simp add: txs_def q2)
  qed
qed

lemma getRollupBlocksFrom_one_confirmed:
  "getRollupBlocksFrom exampleDecoder (oneRollupChain 2) 5 2 =
     Inr [\<lparr>blockCreated = Some 10000000, blockTxHash = [170], rollupProofData = [5],
           viewingKeysData = [190, 239], interactionResult = None, rollupId = 5, rollupSize = 1,
           blockGasPrice = 3, blockGasUsed = 100\<rparr>]"
  by (simp add: getRollupBlocksFrom_def queryRollupProcessed_def oneRollupChain_def exampleTx_def
      exampleDecoder_def decodeBlock_def toNumber_def getDefiBridgeEvents_def
      queryDefiBridgeProcessed_def hexDigit_def Let_def)

theorem getRollupBlocksFrom_confirmations_witness:
  "getRollupBlocksFrom exampleDecoder (oneRollupChain 1) 6 0 = Inr []
   \<and> getRollupBlocksFrom exampleDecoder (oneRollupChain 1) 5 2 = Inr []
   \<and> (\<exists>blocks. getRollupBlocksFrom exampleDecoder (oneRollupChain 2) 5 2 = Inr blocks
         \<and> map blockTxHash blocks = [[170]])"
proof -
  have absent: "\<forall>e \<in> set (rollupProcessedEvents (oneRollupChain 1)). eventRollupId e \<noteq> 6"
    by (simp add: oneRollupChain_def)
  have young: "\<forall>e \<in> set (rollupProcessedEvents (oneRollupChain 1)). confirmations (getTransaction e) < 2"
    by (simp add: oneRollupChain_def exampleTx_def)
  have found: "filter (\<lambda>e. eventRollupId e = 5) (rollupProcessedEvents (oneRollupChain 2))
      = [\<lparr>eventRollupId = 5, eventBlockNumber = 1000,
          getTransaction = exampleTx ''0xaa'' 1000 2 ''0x05''\<rparr>]"
    by (simp add: oneRollupChain_def)
  show ?thesis
    using absent young found getRollupBlocksFrom_one_confirmed
      getRollupBlocksFrom_confirmations [of "oneRollupChain 1" 6 exampleDecoder 0]
      getRollupBlocksFrom_confirmations [of "oneRollupChain 1" 5 exampleDecoder 2]
      getRollupBlocksFrom_confirmations [of "oneRollupChain 2" 5 exampleDecoder 2]
    by simp
qed

text \<open>
  Claim C3 fails on the gas used. On the chain with two confirmed rollups whose
  receipts report 100 and 200 gas, both returned blocks carry 100, the gas of the first
  transaction's receipt: every block is decoded with \<open>receipts[0]\<close>.
\<close>

theorem getRollupBlocksFrom_gasUsed_of_first_receipt:
  "(\<exists>b1 b2. getRollupBlocksFrom exampleDecoder twoRollupChain 5 1 = Inr [b1, b2]
      \<and> blockTxHash b1 = [170] \<and> blockGasUsed b1 = 100
      \<and> blockTxHash b2 = [187] \<and> blockGasUsed b2 = 100
      \<and> interactionResult b2 = Some [exampleInteraction])
   \<and> map (\<lambda>e. gasUsed (getTransactionReceipt twoRollupChain (hash (getTransaction e))))
        (rollupProcessedEvents twoRollupChain) = [100, 200]"
  by (simp add: getRollupBlocksFrom_def queryRollupProcessed_def twoRollupChain_def exampleTx_def
      exampleDecoder_def decodeBlock_def toNumber_def getDefiBridgeEvents_def
      queryDefiBridgeProcessed_def hexDigit_def Let_def upt_rec)

section \<open>Properties of the database\<close>

subsection \<open>Notes of a user\<close>

text \<open>
  Claim C6. For every database and owner, \<open>getUserNotes\<close> returns exactly the stored
  notes of that owner that are not nullified, each as often as it is stored, and the
  result is ordered by index ascending. So neither a nullified note nor a note of
  another owner is in the result.
\<close>

theorem getUserNotes_exact_and_sorted:
  "mset (getUserNotes db ownerId)
     = filter_mset (\<lambda>n. owner n = ownerId \<and> \<not> nullified n) (mset (noteTable db))
   \<and> set (getUserNotes db ownerId)
     = {n \<in> set (noteTable db). owner n = ownerId \<and> \<not> nullified n}
   \<and> sorted (map index (getUserNotes db ownerId))"
  by (simp add: getUserNotes_def)

theorem getUserNotes_exact_and_sorted_witness:
  "map index (getUserNotes exNotes ([1], 0)) = [2, 9]
   \<and> sorted (map index (getUserNotes exNotes ([1], 0)))"
  using getUserNotes_exact_and_sorted [of exNotes "([1], 0)"]
  by (simp add: getUserNotes_def exNotes_def emptyDb_def)

subsection \<open>Reset\<close>

text \<open>
  Claim C7. After \<open>resetUsers\<close> the alias, note, signing key and transaction tables
  are empty and every user has \<open>syncedToRollup = -1\<close>; the users are the same rows
  otherwise (same id, public key and private key, in the same order), and the key-value
  store is unchanged.
\<close>

theorem resetUsers_clears_and_preserves:
  "aliasTable (resetUsers db) = []
   \<and> noteTable (resetUsers db) = []
   \<and> signingKeyTable (resetUsers db) = []
   \<and> userTxTable (resetUsers db) = []
   \<and> (\<forall>u \<in> set (userTable (resetUsers db)). syncedToRollup u = -1)
   \<and> userTable (resetUsers db) = map (\<lambda>u. u\<lparr>syncedToRollup := -1\<rparr>) (userTable db)
   \<and> map id' (userTable (resetUsers db)) = map id' (userTable db)
   \<and> map publicKey (userTable (resetUsers db)) = map publicKey (userTable db)
   \<and> map privateKey (userTable (resetUsers db)) = map privateKey (userTable db)
   \<and> keyTable (resetUsers db) = keyTable db"
  by (simp add: resetUsers_def)

theorem resetUsers_clears_and_preserves_witness:
  "resetUsers exFullDb =
     emptyDb\<lparr>userTable := [\<lparr>id' = ([1], 0), publicKey = [1], privateKey = Some [2], syncedToRollup = -1\<rparr>],
             keyTable := [(''secretKey'', [1, 2, 3])]\<rparr>"
  using resetUsers_clears_and_preserves [of exFullDb]
  by (simp add: resetUsers_def exFullDb_def emptyDb_def)

subsection \<open>Transaction history\<close>

lemma find_append_split:
  "find P (xs @ ys) = (case find P xs of None \<Rightarrow> find P ys | Some x \<Rightarrow> Some x)"
  by (induction xs) simp_all

lemma find_None_no_match: "\<not> list_ex P xs \<Longrightarrow> find P xs = None"
  by (induction xs) simp_all

lemma find_replaced_same:
  "list_ex (sameUserTx tx) xs \<Longrightarrow>
     find (\<lambda>r. userId r = userId tx \<and> txHash r = txHash tx)
       (map (\<lambda>r. if sameUserTx tx r then tx else r) xs) = Some tx"
  by (induction xs) (auto simp: sameUserTx_def)

lemma find_replaced_other:
  "(u, h) \<noteq> (userId tx, txHash tx) \<Longrightarrow>
     find (\<lambda>r. userId r = u \<and> txHash r = h) (map (\<lambda>r. if sameUserTx tx r then tx else r) xs)
       = find (\<lambda>r. userId r = u \<and> txHash r = h) xs"
  by (induction xs) (auto simp: sameUserTx_def)

lemma keys_replaced:
  "map (\<lambda>r. (txHash r, userId r)) (map (\<lambda>r. if sameUserTx tx r then tx else r) xs)
     = map (\<lambda>r. (txHash r, userId r)) xs"
  by (induction xs) (auto simp: sameUserTx_def)

lemma key_fresh:
  "\<not> list_ex (sameUserTx tx) xs \<Longrightarrow> (txHash tx, userId tx) \<notin> set (map (\<lambda>r. (txHash r, userId r)) xs)"
  by (induction xs) (auto simp: sameUserTx_def)

lemma find_settled_same:
  "find (\<lambda>r. userId r = u \<and> txHash r = h)
     (map (\<lambda>r. if userId r = u \<and> txHash r = h then r\<lparr>settled := True\<rparr> else r) xs)
     = map_option (\<lambda>r. r\<lparr>settled := True\<rparr>) (find (\<lambda>r. userId r = u \<and> txHash r = h) xs)"
  by (induction xs) auto

lemma find_settled_other:
  "(u', h') \<noteq> (u, h) \<Longrightarrow>
     find (\<lambda>r. userId r = u' \<and> txHash r = h')
       (map (\<lambda>r. if userId r = u \<and> txHash r = h then r\<lparr>settled := True\<rparr> else r) xs)
     = find (\<lambda>r. userId r = u' \<and> txHash r = h') xs"
  by (induction xs) auto

lemma addUserTx_get_same: "getUserTx (addUserTx tx db) (userId tx) (txHash tx) = Some tx"
proof (cases "list_ex (sameUserTx tx) (userTxTable db)")
  case True
  then show ?thesis
    by (simp add: getUserTx_def addUserTx_def find_replaced_same)
next
  case False
  then have "find (\<lambda>r. userId r = userId tx \<and> txHash r = txHash tx) (userTxTable db) = None"
    by (intro find_None_no_match) (auto simp: list_ex_iff sameUserTx_def)
  with False show ?thesis
    by (simp add: getUserTx_def addUserTx_def find_append_split)
qed

lemma addUserTx_get_other:
  "(u, h) \<noteq> (userId tx, txHash tx) \<Longrightarrow> getUserTx (addUserTx tx db) u h = getUserTx db u h"
  by (cases "list_ex (sameUserTx tx) (userTxTable db)")
    (auto simp: getUserTx_def addUserTx_def find_replaced_other find_append_split
      split: option.splits)

lemma addUserTx_distinct:
  "distinct (map (\<lambda>r. (txHash r, userId r)) (userTxTable db)) \<Longrightarrow>
     distinct (map (\<lambda>r. (txHash r, userId r)) (userTxTable (addUserTx tx db)))"
proof (cases "list_ex (sameUserTx tx) (userTxTable db)")
  case True
  assume "distinct (map (\<lambda>r. (txHash r, userId r)) (userTxTable db))"
  with True show ?thesis
    by (simp add: addUserTx_def keys_replaced del: map_map)
next
  case False
  assume "distinct (map (\<lambda>r. (txHash r, userId r)) (userTxTable db))"
  with False key_fresh [OF False] show ?thesis
    by (simp add: addUserTx_def)
qed

text \<open>
  Claim C8. Rows are keyed by (txHash, userId). After \<open>addUserTx tx\<close> the row found
  under the key of \<open>tx\<close> is \<open>tx\<close>, whether or not the key was stored before (the last
  write wins, and the operation has no failure), and every other key gives the row it
  gave before. When the key was stored already the table keeps its length, and a table
  with unique keys keeps unique keys. \<open>settleUserTx uid hsh\<close> sets \<open>settled\<close> on the row
  under (uid, hsh), if there is one, and leaves the row under every other key as it
  was, among them the rows of other users for the same hash.
\<close>

theorem userTx_keyed_by_hash_and_user:
  "getUserTx (addUserTx tx db) (userId tx) (txHash tx) = Some tx
   \<and> (\<forall>u h. (u, h) \<noteq> (userId tx, txHash tx) \<longrightarrow>
         getUserTx (addUserTx tx db) u h = getUserTx db u h)
   \<and> (getUserTx db (userId tx) (txHash tx) \<noteq> None \<longrightarrow>
         length (userTxTable (addUserTx tx db)) = length (userTxTable db))
   \<and> (distinct (map (\<lambda>r. (txHash r, userId r)) (userTxTable db)) \<longrightarrow>
         distinct (map (\<lambda>r. (txHash r, userId r)) (userTxTable (addUserTx tx db))))
   \<and> getUserTx (settleUserTx uid hsh db) uid hsh
       = map_option (\<lambda>r. r\<lparr>settled := True\<rparr>) (getUserTx db uid hsh)
   \<and> (\<forall>u h. (u, h) \<noteq> (uid, hsh) \<longrightarrow>
         getUserTx (settleUserTx uid hsh db) u h = getUserTx db u h)"
proof (intro conjI allI impI)
  show "getUserTx (addUserTx tx db) (userId tx) (txHash tx) = Some tx"
    by (rule addUserTx_get_same)
next
  fix u h assume "(u, h) \<noteq> (userId tx, txHash tx)"
  then show "getUserTx (addUserTx tx db) u h = getUserTx db u h"
    by (rule addUserTx_get_other)
next
  assume "getUserTx db (userId tx) (txHash tx) \<noteq> None"
  then have "list_ex (sameUserTx tx) (userTxTable db)"
    by (auto simp: getUserTx_def find_None_iff list_ex_iff sameUserTx_def intro: sym)
  then show "length (userTxTable (addUserTx tx db)) = length (userTxTable db)"
    by (simp add: addUserTx_def)
next
  assume "distinct (map (\<lambda>r. (txHash r, userId r)) (userTxTable db))"
  then show "distinct (map (\<lambda>r. (txHash r, userId r)) (userTxTable (addUserTx tx db)))"
    by (rule addUserTx_distinct)
next
  show "getUserTx (settleUserTx uid hsh db) uid hsh
       = map_option (\<lambda>r. r\<lparr>settled := True\<rparr>) (getUserTx db uid hsh)"
    by (simp add: getUserTx_def settleUserTx_def find_settled_same)
next
  fix u h assume "(u, h) \<noteq> (uid, hsh)"
  then show "getUserTx (settleUserTx uid hsh db) u h = getUserTx db u h"
    by (simp add: getUserTx_def settleUserTx_def find_settled_other)
qed

theorem userTx_keyed_by_hash_and_user_witness:
  "getUserTx (addUserTx (exUserTx [20] ([1], 0) 99) exFullDb) ([1], 0) [20] = Some (exUserTx [20] ([1], 0) 99)
   \<and> getUserTx (addUserTx (exUserTx [20] ([1], 0) 99) exFullDb) ([2], 0) [20] = Some (exUserTx [20] ([2], 0) 10)
   \<and> length (userTxTable (addUserTx (exUserTx [20] ([1], 0) 99) exFullDb)) = 2
   \<and> distinct (map (\<lambda>r. (txHash r, userId r)) (userTxTable (addUserTx (exUserTx [20] ([1], 0) 99) exFullDb)))
   \<and> map_option settled (getUserTx (settleUserTx ([1], 0) [20] exFullDb) ([1], 0) [20]) = Some True
   \<and> map_option settled (getUserTx (settleUserTx ([1], 0) [20] exFullDb) ([2], 0) [20]) = Some False"
proof -
  have stored: "getUserTx exFullDb ([1], 0) [20] = Some (exUserTx [20] ([1], 0) 10)"
    "getUserTx exFullDb ([2], 0) [20] = Some (exUserTx [20] ([2], 0) 10)"
    by (simp_all add: getUserTx_def exFullDb_def exUserTx_def)
  have keys: "distinct (map (\<lambda>r. (txHash r, userId r)) (userTxTable exFullDb))"
    by (simp add: exFullDb_def exUserTx_def)
  have len: "length (userTxTable exFullDb) = 2"
    by (simp add: exFullDb_def)
  show ?thesis
    using stored keys len
      userTx_keyed_by_hash_and_user [of "exUserTx [20] ([1], 0) 99" exFullDb "([1], 0)" "[20]"]
    by (simp add: exUserTx_def)
qed

subsection \<open>Alias nonce queries\<close>























text \<open>
  The queries above pass the two tests of the suite, for every alias and any three
  distinct random values.
\<close>

lemma alias_queries_pass_tests:
  assumes "distinct [r0, r1, r2]"
  shows "test_getAliasHashByAddress addAlias getAliasHashByAddress emptyDb alias r0 r1 r2"
    and "test_getAddressByAliasHash addAlias getAddressByAliasHash emptyDb alias r0 r1 r2"
  using assms
  by (auto simp: test_getAliasHashByAddress_def test_getAddressByAliasHash_def addAlias_def
      getAliasHashByAddress_def getAddressByAliasHash_def emptyDb_def sameAlias_def
      leastBy_def greatestBy_def Let_def)




end
